theory Spec2Isabelle
  imports Complex_Main "HOL-Library.Multiset"
begin

section \<open>utils.py: seeding and nearest neighbours by cosine similarity\<close>

subsection \<open>set\_seed\_everywhere\<close>

text \<open>
  The function writes the seed of three global generators: numpy's (\<open>np.random.seed\<close>),
  torch's (\<open>torch.manual_seed\<close>) and the one of every CUDA device
  (\<open>torch.cuda.manual_seed_all\<close>). The process state it touches is a record of the seed
  last given to each; \<open>None\<close> is a generator that was never seeded.
\<close>

record rng_state =
  np_random_seed :: "int option"
  torch_seed :: "int option"
  torch_cuda_seed_all :: "int option"

definition np_random_seed_call :: "int \<Rightarrow> rng_state \<Rightarrow> rng_state" where
  "np_random_seed_call seed s = s\<lparr>np_random_seed := Some seed\<rparr>"

definition torch_manual_seed :: "int \<Rightarrow> rng_state \<Rightarrow> rng_state" where
  "torch_manual_seed seed s = s\<lparr>torch_seed := Some seed\<rparr>"

definition torch_cuda_manual_seed_all :: "int \<Rightarrow> rng_state \<Rightarrow> rng_state" where
  "torch_cuda_manual_seed_all seed s = s\<lparr>torch_cuda_seed_all := Some seed\<rparr>"

definition set_seed_everywhere :: "rng_state \<Rightarrow> rng_state" where
  "set_seed_everywhere s =
     (let seed = 42;
          s1 = np_random_seed_call seed s;
          s2 = torch_manual_seed seed s1;
          s3 = torch_cuda_manual_seed_all seed s2
      in s3)"

subsection \<open>get\_cosine\_similar\<close>

text \<open>
  Exceptions are values: the dictionary lookup raises \<open>KeyError\<close> with the key it missed,
  indexing the embedding tensor raises \<open>IndexError\<close>; \<open>ValueError\<close> and \<open>RuntimeError\<close>
  are what the normalisation layer of the encoder stack raises, each with its message
  (the numbers in the messages are left out).
\<close>

datatype error = KeyError string | IndexError int | ValueError string | RuntimeError string

text \<open>
  \<open>embeddings[index]\<close> on a tensor whose first dimension has \<open>length rows\<close> entries: an
  index from \<open>-length\<close> to \<open>-1\<close> counts from the end, anything else out of range raises.
  The tensor is the list of its rows.
\<close>

definition tensor_getitem :: "'v list \<Rightarrow> int \<Rightarrow> error + 'v" where
  "tensor_getitem rows i =
     (if 0 \<le> i \<and> i < int (length rows) then Inr (rows ! nat i)
      else if - int (length rows) \<le> i \<and> i < 0 then Inr (rows ! nat (int (length rows) + i))
      else Inl (IndexError i))"

text \<open>
  \<open>sorted(xs, key=k, reverse=True)\<close>: the list is reversed, sorted stably in ascending
  order of the key, and reversed again, which is how the interpreter keeps the sort
  stable under \<open>reverse\<close>. The keys are compared in a linear order.
\<close>

definition sorted_reverse :: "('a \<Rightarrow> 'k::linorder) \<Rightarrow> 'a list \<Rightarrow> 'a list" where
  "sorted_reverse key xs = rev (sort_key key (rev xs))"

text \<open>
  The loop over \<open>word_to_idx.items()\<close>, with the list \<open>distances\<close> it appends to. The
  dictionary is the list of its items in iteration order. \<open>cos_sim\<close> is the source's
  \<open>cos\<close>, the library's
  \<open>nn.CosineSimilarity(dim=0)\<close>, a parameter of the model.
\<close>

fun distances_loop ::
  "('v \<Rightarrow> 'v \<Rightarrow> 's) \<Rightarrow> 'v \<Rightarrow> 'v list \<Rightarrow> string \<Rightarrow> (string \<times> int) list
     \<Rightarrow> (string \<times> 's) list \<Rightarrow> error + (string \<times> 's) list" where
  "distances_loop cos_sim word_embedding embeddings target_word [] distances = Inr distances"
| "distances_loop cos_sim word_embedding embeddings target_word ((word, index) # items) distances =
     (if word \<in> set [''<MASK>'', target_word, ''<UNK>'']
      then distances_loop cos_sim word_embedding embeddings target_word items distances
      else (case tensor_getitem embeddings index of
              Inl e \<Rightarrow> Inl e
            | Inr row \<Rightarrow>
                distances_loop cos_sim word_embedding embeddings target_word items
                  (distances @ [(word, cos_sim word_embedding row)])))"

text \<open>
  \<open>lower\<close> is \<open>str.lower\<close>, a parameter of the model as well.
\<close>

definition get_cosine_similar ::
  "(string \<Rightarrow> string) \<Rightarrow> ('v \<Rightarrow> 'v \<Rightarrow> 's::linorder) \<Rightarrow> string \<Rightarrow> (string \<times> int) list
     \<Rightarrow> 'v list \<Rightarrow> error + (string \<times> 's) list" where
  "get_cosine_similar lower cos_sim target_word word_to_idx embeddings =
     (case map_of word_to_idx (lower target_word) of
        None \<Rightarrow> Inl (KeyError (lower target_word))
      | Some target_index \<Rightarrow>
          (case tensor_getitem embeddings target_index of
             Inl e \<Rightarrow> Inl e
           | Inr word_embedding \<Rightarrow>
               (case distances_loop cos_sim word_embedding embeddings target_word word_to_idx [] of
                  Inl e \<Rightarrow> Inl e
                | Inr distances \<Rightarrow> Inr (sorted_reverse snd distances))))"

text \<open>
  The rows of a table are reachable when every index of the dictionary is one the tensor
  accepts.
\<close>

definition index_ok :: "'v list \<Rightarrow> int \<Rightarrow> bool" where
  "index_ok rows i \<longleftrightarrow> - int (length rows) \<le> i \<and> i < int (length rows)"

definition indices_ok :: "(string \<times> int) list \<Rightarrow> 'v list \<Rightarrow> bool" where
  "indices_ok word_to_idx rows \<longleftrightarrow> list_all (\<lambda>(w, i). index_ok rows i) word_to_idx"

text \<open>The row an accepted index reads.\<close>

definition row_at :: "'v list \<Rightarrow> int \<Rightarrow> 'v" where
  "row_at rows i = (if 0 \<le> i then rows ! nat i else rows ! nat (int (length rows) + i))"

text \<open>The tokens the loop skips.\<close>

definition skipped :: "string \<Rightarrow> string set" where
  "skipped target_word = {''<MASK>'', target_word, ''<UNK>''}"

text \<open>The pairs the loop appends, in iteration order, for a given target row.\<close>

definition scored :: "('v \<Rightarrow> 'v \<Rightarrow> 's) \<Rightarrow> 'v \<Rightarrow> 'v list \<Rightarrow> string \<Rightarrow> (string \<times> int) list
     \<Rightarrow> (string \<times> 's) list" where
  "scored cos_sim word_embedding embeddings target_word items =
     map (\<lambda>(w, i). (w, cos_sim word_embedding (row_at embeddings i)))
       (filter (\<lambda>(w, i). w \<notin> skipped target_word) items)"

text \<open>ASCII lower-casing, the part of \<open>str.lower\<close> the examples use.\<close>

definition ascii_lower_char :: "char \<Rightarrow> char" where
  "ascii_lower_char c =
     (if (65::nat) \<le> of_char c \<and> (of_char c :: nat) \<le> 90
      then char_of ((of_char c :: nat) + 32) else c)"

definition ascii_lower :: "string \<Rightarrow> string" where
  "ascii_lower s = map ascii_lower_char s"

text \<open>
  The real-valued reading of \<open>nn.CosineSimilarity(dim=0)\<close> on two nonzero vectors, for
  the examples: the dot product over the product of the two norms.
\<close>

definition dot :: "real list \<Rightarrow> real list \<Rightarrow> real" where
  "dot x y = sum_list (map2 (*) x y)"

definition cosine_similarity :: "real list \<Rightarrow> real list \<Rightarrow> real" where
  "cosine_similarity x y = dot x y / (sqrt (dot x x) * sqrt (dot y y))"

text \<open>The vocabulary and the table of the examples; \<open>kit\<close> reads row 0 from the end.\<close>

definition example_vocab :: "(string \<times> int) list" where
  "example_vocab = [(''cat'', 0), (''dog'', 1), (''car'', 2), (''<MASK>'', 3), (''<UNK>'', 4)]"

definition example_embeddings :: "real list list" where
  "example_embeddings = [[1, 0], [1, 0], [0, 1], [1, 1], [1, 1]]"

definition example_vocab_ties :: "(string \<times> int) list" where
  "example_vocab_ties = [(''car'', 2), (''dog'', 1), (''<UNK>'', 4), (''cat'', 0), (''kit'', - 5)]"

section \<open>encoder.py: the encoder block and the encoder stack\<close>

subsection \<open>EncoderBlock\<close>

text \<open>
  A module called on a tensor returns a tensor or raises: its result is \<open>'e + 't\<close>, with
  \<open>'e\<close> what it raises, \<open>'t\<close> the tensors and \<open>'m\<close> the masks. The attention module, the
  feed-forward module and the two add-and-norm layers are defined outside encoder.py; the
  block holds them as fields, as the object does. An add-and-norm layer is called with
  the values and the sublayer function.
\<close>

record ('t, 'm, 'e) EncoderBlock =
  layer_size :: int
  self_attention :: "'t \<Rightarrow> 't \<Rightarrow> 't \<Rightarrow> 'm \<Rightarrow> 'e + 't"
  add_norm_layer_1 :: "'t \<Rightarrow> ('t \<Rightarrow> 'e + 't) \<Rightarrow> 'e + 't"
  feed_forward :: "'t \<Rightarrow> 'e + 't"
  add_norm_layer_2 :: "'t \<Rightarrow> ('t \<Rightarrow> 'e + 't) \<Rightarrow> 'e + 't"

text \<open>
  The constructor; \<open>AddAndNormWithDropoutLayer\<close> is the class it instantiates twice with
  \<open>(size, dropout)\<close>.
\<close>

definition EncoderBlock_init ::
  "(int \<Rightarrow> 'd \<Rightarrow> 't \<Rightarrow> ('t \<Rightarrow> 'e + 't) \<Rightarrow> 'e + 't) \<Rightarrow> int \<Rightarrow> ('t \<Rightarrow> 't \<Rightarrow> 't \<Rightarrow> 'm \<Rightarrow> 'e + 't)
     \<Rightarrow> ('t \<Rightarrow> 'e + 't) \<Rightarrow> 'd \<Rightarrow> ('t, 'm, 'e) EncoderBlock" where
  "EncoderBlock_init AddAndNormWithDropoutLayer size_arg attention ffn dropout =
     \<lparr>layer_size = size_arg,
      self_attention = attention,
      add_norm_layer_1 = AddAndNormWithDropoutLayer size_arg dropout,
      feed_forward = ffn,
      add_norm_layer_2 = AddAndNormWithDropoutLayer size_arg dropout\<rparr>"

definition EncoderBlock_forward :: "('t, 'm, 'e) EncoderBlock \<Rightarrow> 't \<Rightarrow> 'm \<Rightarrow> 'e + 't" where
  "EncoderBlock_forward self values msk =
     (case add_norm_layer_1 self values (\<lambda>x. self_attention self x x x msk) of
        Inl e \<Rightarrow> Inl e
      | Inr values1 \<Rightarrow> add_norm_layer_2 self values1 (feed_forward self))"

subsection \<open>CompositeEncoder\<close>

text \<open>
  The stack holds references to block objects, so the blocks live in a store: a cell for
  every address and the next free address. \<open>deepcopy\<close> allocates a new object with the
  contents of the one copied; assigning to an attribute of an object writes its cell.
\<close>

type_synonym addr = nat

record ('t, 'm, 'e) store =
  cells :: "addr \<Rightarrow> ('t, 'm, 'e) EncoderBlock"
  next_addr :: addr

definition deepcopy :: "('t, 'm, 'e) store \<Rightarrow> addr \<Rightarrow> ('t, 'm, 'e) store \<times> addr" where
  "deepcopy h a = (h\<lparr>cells := (cells h)(next_addr h := cells h a), next_addr := Suc (next_addr h)\<rparr>, next_addr h)"

definition store_block ::
  "('t, 'm, 'e) store \<Rightarrow> addr \<Rightarrow> ('t, 'm, 'e) EncoderBlock \<Rightarrow> ('t, 'm, 'e) store" where
  "store_block h a b = h\<lparr>cells := (cells h)(a := b)\<rparr>"

text \<open>The arguments \<open>nn.BatchNorm1d\<close> is constructed with.\<close>

record BatchNorm1d =
  num_features :: int
  momentum :: "real option"
  affine :: bool

record CompositeEncoder =
  layers :: "addr list"
  add_norm :: BatchNorm1d

text \<open>
  \<open>[deepcopy(layer)] * num_layers\<close> evaluates \<open>deepcopy(layer)\<close> once and repeats the
  reference it returns; a count below one gives the empty list.
\<close>

definition CompositeEncoder_init ::
  "('t, 'm, 'e) store \<Rightarrow> addr \<Rightarrow> int \<Rightarrow> ('t, 'm, 'e) store \<times> CompositeEncoder" where
  "CompositeEncoder_init h layer num_layers =
     (let (h1, copy) = deepcopy h layer
      in (h1, \<lparr>layers = replicate (nat num_layers) copy,
               add_norm = \<lparr>num_features = layer_size (cells h layer),
                            momentum = None, affine = False\<rparr>\<rparr>))"

text \<open>The loop \<open>for layer in self._layers: values = layer(values, mask)\<close>.\<close>

fun run_layers :: "('t, 'm, 'e) store \<Rightarrow> addr list \<Rightarrow> 't \<Rightarrow> 'm \<Rightarrow> 'e + 't" where
  "run_layers h [] values msk = Inr values"
| "run_layers h (layer # rest) values msk =
     (case EncoderBlock_forward (cells h layer) values msk of
        Inl e \<Rightarrow> Inl e
      | Inr values1 \<Rightarrow> run_layers h rest values1 msk)"

text \<open>\<open>batch_norm\<close> is the library's normalisation, called with the stack's layer.\<close>

definition CompositeEncoder_forward ::
  "(BatchNorm1d \<Rightarrow> 't \<Rightarrow> 'e + 't) \<Rightarrow> ('t, 'm, 'e) store \<Rightarrow> CompositeEncoder \<Rightarrow> 't \<Rightarrow> 'm
     \<Rightarrow> 'e + 't" where
  "CompositeEncoder_forward batch_norm h self values msk =
     (case run_layers h (layers self) values msk of
        Inl e \<Rightarrow> Inl e
      | Inr values1 \<Rightarrow> batch_norm (add_norm self) values1)"

subsection \<open>Tensors and their shapes\<close>

datatype 'a tensor = Tensor (shape: "nat list") (entries: "'a list")

text \<open>
  The shape contracts of the modules the block is built from: a sublayer, the attention
  module and an add-and-norm layer each return a tensor of the shape \<open>sh\<close> they are given.
\<close>

definition keeps_shape :: "nat list \<Rightarrow> ('a tensor \<Rightarrow> 'e + 'a tensor) \<Rightarrow> bool" where
  "keeps_shape sh f \<longleftrightarrow> (\<forall>x. shape x = sh \<longrightarrow> (\<exists>y. f x = Inr y \<and> shape y = sh))"

definition attention_keeps_shape ::
  "nat list \<Rightarrow> 'm \<Rightarrow> ('a tensor \<Rightarrow> 'a tensor \<Rightarrow> 'a tensor \<Rightarrow> 'm \<Rightarrow> 'e + 'a tensor) \<Rightarrow> bool" where
  "attention_keeps_shape sh msk attention \<longleftrightarrow>
     (\<forall>q k v. shape q = sh \<and> shape k = sh \<and> shape v = sh
        \<longrightarrow> (\<exists>y. attention q k v msk = Inr y \<and> shape y = sh))"

definition add_norm_keeps_shape ::
  "nat list \<Rightarrow> ('a tensor \<Rightarrow> ('a tensor \<Rightarrow> 'e + 'a tensor) \<Rightarrow> 'e + 'a tensor) \<Rightarrow> bool" where
  "add_norm_keeps_shape sh add_norm_layer \<longleftrightarrow>
     (\<forall>x f. shape x = sh \<and> keeps_shape sh f
        \<longrightarrow> (\<exists>y. add_norm_layer x f = Inr y \<and> shape y = sh))"

definition block_keeps_shape :: "nat list \<Rightarrow> 'm \<Rightarrow> ('a tensor, 'm, 'e) EncoderBlock \<Rightarrow> bool" where
  "block_keeps_shape sh msk b \<longleftrightarrow>
     attention_keeps_shape sh msk (self_attention b) \<and>
     keeps_shape sh (feed_forward b) \<and>
     add_norm_keeps_shape sh (add_norm_layer_1 b) \<and>
     add_norm_keeps_shape sh (add_norm_layer_2 b)"

subsection \<open>The normalisation layer of the stack\<close>

text \<open>
  The stack calls the library's \<open>nn.BatchNorm1d\<close> on the output of the last block as it
  is, without a transposition. The layer takes dimension 1 of its input as the channels:
  it raises \<open>ValueError\<close> on an input that has neither two nor three dimensions and, in
  training mode, on one with a single value per channel, and \<open>RuntimeError\<close> when dimension
  1 has not \<open>num_features\<close> entries. Otherwise the result has the shape of the input, and
  every entry is standardised with the statistics of its channel: \<open>standardise\<close>, the
  floating-point part, is a parameter that gets the layer, the mode, the channel, the
  entries of the channel and the entry. The entries of a tensor are in row-major order.
\<close>

definition channel_of :: "nat list \<Rightarrow> nat \<Rightarrow> nat" where
  "channel_of sh i = (i div prod_list (drop 2 sh)) mod (sh ! 1)"

definition channel_entries :: "'a tensor \<Rightarrow> nat \<Rightarrow> 'a list" where
  "channel_entries x c =
     map (\<lambda>i. entries x ! i) (filter (\<lambda>i. channel_of (shape x) i = c) [0..<length (entries x)])"

definition size_prods :: "nat list \<Rightarrow> nat" where
  "size_prods sh = sh ! 0 * prod_list (drop 2 sh)"

definition BatchNorm1d_forward ::
  "(BatchNorm1d \<Rightarrow> bool \<Rightarrow> nat \<Rightarrow> 'a list \<Rightarrow> 'a \<Rightarrow> 'a) \<Rightarrow> bool \<Rightarrow> BatchNorm1d \<Rightarrow> 'a tensor
     \<Rightarrow> error + 'a tensor" where
  "BatchNorm1d_forward standardise training self x =
     (if length (shape x) \<noteq> 2 \<and> length (shape x) \<noteq> 3
      then Inl (ValueError ''expected 2D or 3D input'')
      else if training \<and> size_prods (shape x) = 1
      then Inl (ValueError ''Expected more than 1 value per channel when training'')
      else if int (shape x ! 1) \<noteq> num_features self
      then Inl (RuntimeError ''running_mean should contain as many elements as dimension 1'')
      else Inr (Tensor (shape x)
             (map (\<lambda>i. standardise self training (channel_of (shape x) i)
                          (channel_entries x (channel_of (shape x) i)) (entries x ! i))
                [0..<length (entries x)])))"

subsection \<open>A small block for the examples\<close>

text \<open>
  Integer tensors; the attention returns its value argument where the mask is set, the
  feed-forward module scales by a factor, the add-and-norm layer adds the sublayer's
  output to its input and raises when the shapes differ.
\<close>

definition example_attention ::
  "int tensor \<Rightarrow> int tensor \<Rightarrow> int tensor \<Rightarrow> bool \<Rightarrow> error + int tensor" where
  "example_attention q k v msk =
     (if msk then Inr v else Inr (Tensor (shape v) (map (\<lambda>_. 0) (entries v))))"

definition example_ffn :: "int \<Rightarrow> int tensor \<Rightarrow> error + int tensor" where
  "example_ffn c x = Inr (Tensor (shape x) (map (\<lambda>a. c * a) (entries x)))"

definition example_add_norm ::
  "int tensor \<Rightarrow> (int tensor \<Rightarrow> error + int tensor) \<Rightarrow> error + int tensor" where
  "example_add_norm x f =
     (case f x of
        Inl e \<Rightarrow> Inl e
      | Inr y \<Rightarrow>
          (if shape y = shape x then Inr (Tensor (shape x) (map2 (+) (entries x) (entries y)))
           else Inl (RuntimeError ''shape mismatch'')))"

definition example_block :: "int \<Rightarrow> (int tensor, bool, error) EncoderBlock" where
  "example_block c =
     EncoderBlock_init (\<lambda>sz (dropout :: real). example_add_norm) 2 example_attention
       (example_ffn c) 0"

definition example_store :: "(int tensor, bool, error) store" where
  "example_store = \<lparr>cells = (\<lambda>_. example_block 2), next_addr = 1\<rparr>"

text \<open>
  For the normalisation of the examples, an integer stand-in for the standardisation of
  one entry: in training mode the entry is centred on the mean of its channel and scaled
  by the number of entries of the channel, in evaluation mode, with the running
  statistics of a new layer (mean 0, variance 1), it is left as it is.
\<close>

definition example_standardise :: "BatchNorm1d \<Rightarrow> bool \<Rightarrow> nat \<Rightarrow> int list \<Rightarrow> int \<Rightarrow> int" where
  "example_standardise bn training c channel x =
     (if training then int (length channel) * x - sum_list channel else x)"

definition example_values :: "int tensor" where
  "example_values = Tensor [1, 1, 2] [1, 2]"

text \<open>Values whose dimension 1 is the size of the example block, and values of shape [2, 3, 2].\<close>

definition example_values_dim1 :: "int tensor" where
  "example_values_dim1 = Tensor [1, 2, 2] [1, 2, 3, 4]"


subsection \<open>A recording block for the examples\<close>

text \<open>
  Modules that record how they are called: a tensor is the expression of the calls that
  produced it, the attention module records its three arguments and its mask, an
  add-and-norm layer its number, its input and what the sublayer returned on that input,
  the normalisation the layer it was called with.
\<close>

datatype 'm call =
    Values
  | Attention "'m call" "'m call" "'m call" 'm
  | FeedForward "'m call"
  | AddNorm nat "'m call" "'m call"
  | FinalNorm BatchNorm1d "'m call"

definition spy_add_norm :: "nat \<Rightarrow> 'm call \<Rightarrow> ('m call \<Rightarrow> unit + 'm call) \<Rightarrow> unit + 'm call" where
  "spy_add_norm n x f = (case f x of Inl e \<Rightarrow> Inl e | Inr y \<Rightarrow> Inr (AddNorm n x y))"

definition spy_block :: "('m call, 'm, unit) EncoderBlock" where
  "spy_block =
     \<lparr>layer_size = 8,
      self_attention = (\<lambda>q k v m. Inr (Attention q k v m)),
      add_norm_layer_1 = spy_add_norm 1,
      feed_forward = (\<lambda>x. Inr (FeedForward x)),
      add_norm_layer_2 = spy_add_norm 2\<rparr>"

definition spy_store :: "('m call, 'm, unit) store" where
  "spy_store = \<lparr>cells = (\<lambda>_. spy_block), next_addr = 1\<rparr>"

definition spy_batch_norm :: "BatchNorm1d \<Rightarrow> 'm call \<Rightarrow> unit + 'm call" where
  "spy_batch_norm bn x = Inr (FinalNorm bn x)"

text \<open>The expression one recording block builds over its input.\<close>

definition block_call :: "'m \<Rightarrow> 'm call \<Rightarrow> 'm call" where
  "block_call m x =
     AddNorm 2 (AddNorm 1 x (Attention x x x m)) (FeedForward (AddNorm 1 x (Attention x x x m)))"

text \<open>A stack of three recording blocks, and one of three blocks of integer tensors.\<close>

definition spy_encoder :: CompositeEncoder where
  "spy_encoder = snd (CompositeEncoder_init (spy_store :: (bool call, bool, unit) store) 0 3)"

definition spy_heap :: "(bool call, bool, unit) store" where
  "spy_heap = fst (CompositeEncoder_init spy_store 0 3)"

definition example_encoder :: CompositeEncoder where
  "example_encoder = snd (CompositeEncoder_init example_store 0 3)"

definition example_heap :: "(int tensor, bool, error) store" where
  "example_heap = fst (CompositeEncoder_init example_store 0 3)"

section \<open>Properties of utils.py\<close>

lemma tensor_getitem_ok:
  "index_ok rows i \<Longrightarrow> tensor_getitem rows i = Inr (row_at rows i)"
  by (auto simp: index_ok_def tensor_getitem_def row_at_def)

lemma tensor_getitem_Inr:
  "tensor_getitem rows i = Inr r \<Longrightarrow> index_ok rows i \<and> r = row_at rows i"
  by (auto simp: index_ok_def tensor_getitem_def row_at_def split: if_splits)

lemma distances_loop_ok:
  "indices_ok items embeddings \<Longrightarrow>
   distances_loop cos_sim we embeddings tw items acc = Inr (acc @ scored cos_sim we embeddings tw items)"
proof (induction items arbitrary: acc)
  case Nil
  then show ?case by (simp add: scored_def)
next
  case (Cons p items)
  obtain w i where p: "p = (w, i)" by (cases p)
  from Cons.prems have ok: "index_ok embeddings i" and rest: "indices_ok items embeddings"
    by (simp_all add: indices_ok_def p)
  show ?case
    using Cons.IH [OF rest] tensor_getitem_ok [OF ok]
    by (simp add: p scored_def skipped_def)
qed

lemma distances_loop_Inr:
  "distances_loop cos_sim we embeddings tw items acc = Inr ds \<Longrightarrow>
   ds = acc @ scored cos_sim we embeddings tw items"
proof (induction items arbitrary: acc)
  case Nil
  then show ?case by (simp add: scored_def)
next
  case (Cons p items)
  obtain w i where p: "p = (w, i)" by (cases p)
  show ?case
  proof (cases "w \<in> skipped tw")
    case True
    with Cons.prems have "distances_loop cos_sim we embeddings tw items acc = Inr ds"
      by (simp add: p skipped_def)
    from Cons.IH [OF this] True show ?thesis by (simp add: p scored_def)
  next
    case False
    with Cons.prems obtain row where row: "tensor_getitem embeddings i = Inr row"
      and loop: "distances_loop cos_sim we embeddings tw items (acc @ [(w, cos_sim we row)]) = Inr ds"
      by (auto simp: p skipped_def split: sum.splits)
    from tensor_getitem_Inr [OF row] have "row = row_at embeddings i" by simp
    with Cons.IH [OF loop] False show ?thesis by (simp add: p scored_def)
  qed
qed


lemma sorted_reverse_desc: "sorted_wrt (\<lambda>a b. key b \<le> key a) (sorted_reverse key xs)"
proof -
  have "sorted (map key (sort_key key (rev xs)))" by (rule sorted_sort_key)
  then have "sorted_wrt (\<lambda>a b. key a \<le> key b) (sort_key key (rev xs))"
    by (simp add: sorted_map)
  then show ?thesis
    by (simp add: sorted_reverse_def sorted_wrt_rev)
qed

lemma sorted_reverse_stable:
  "filter (\<lambda>y. key y = k) (sorted_reverse key xs) = filter (\<lambda>y. key y = k) xs"
  by (simp add: sorted_reverse_def rev_filter [symmetric] sort_key_stable)

lemma sorted_reverse_mset: "mset (sorted_reverse key xs) = mset xs"
  by (simp add: sorted_reverse_def)

lemma sorted_reverse_set: "set (sorted_reverse key xs) = set xs"
  by (simp add: sorted_reverse_def)

lemma sorted_reverse_length: "length (sorted_reverse key xs) = length xs"
  by (simp add: sorted_reverse_def)

lemma get_cosine_similar_ok:
  assumes "map_of word_to_idx (lower target_word) = Some ti"
    and "indices_ok word_to_idx embeddings"
  shows "get_cosine_similar lower cos_sim target_word word_to_idx embeddings =
     Inr (sorted_reverse snd
       (scored cos_sim (row_at embeddings ti) embeddings target_word word_to_idx))"
proof -
  from assms(1) have "(lower target_word, ti) \<in> set word_to_idx" by (rule map_of_SomeD)
  with assms(2) have "index_ok embeddings ti"
    by (auto simp: indices_ok_def list_all_iff)
  then have "tensor_getitem embeddings ti = Inr (row_at embeddings ti)"
    by (rule tensor_getitem_ok)
  then show ?thesis
    using assms(1) distances_loop_ok [OF assms(2), of cos_sim "row_at embeddings ti" target_word "[]"]
    by (simp add: get_cosine_similar_def)
qed

lemma get_cosine_similar_Inr:
  assumes "get_cosine_similar lower cos_sim target_word word_to_idx embeddings = Inr results"
  shows "\<exists>ti. map_of word_to_idx (lower target_word) = Some ti \<and> index_ok embeddings ti \<and>
     results = sorted_reverse snd
       (scored cos_sim (row_at embeddings ti) embeddings target_word word_to_idx)"
proof -
  from assms obtain ti where ti: "map_of word_to_idx (lower target_word) = Some ti"
    by (auto simp: get_cosine_similar_def split: option.splits)
  with assms obtain we where we: "tensor_getitem embeddings ti = Inr we"
    by (auto simp: get_cosine_similar_def split: sum.splits)
  with assms ti obtain ds where
    ds: "distances_loop cos_sim we embeddings target_word word_to_idx [] = Inr ds"
    and res: "results = sorted_reverse snd ds"
    by (auto simp: get_cosine_similar_def split: sum.splits)
  from tensor_getitem_Inr [OF we] distances_loop_Inr [OF ds] ti res
  show ?thesis by auto
qed

lemma set_scored:
  "set (scored cos_sim we embeddings tw items) =
     {(w, cos_sim we (row_at embeddings i)) | w i. (w, i) \<in> set items \<and> w \<notin> skipped tw}"
  by (auto simp: scored_def)

lemma fst_set_scored:
  "fst ` set (scored cos_sim we embeddings tw items) = fst ` set items - skipped tw"
  by (force simp: scored_def)

lemma length_scored:
  "length (scored cos_sim we embeddings tw items) =
     length (filter (\<lambda>(w, i). w \<notin> skipped tw) items)"
  by (simp add: scored_def)

lemma filter_scored:
  "map fst (filter (\<lambda>p. snd p = k) (scored cos_sim we embeddings tw items)) =
   map fst (filter (\<lambda>(w, i). w \<notin> skipped tw \<and> cos_sim we (row_at embeddings i) = k) items)"
  by (induction items) (auto simp: scored_def)



lemma ascii_lower_char_not_upper:
  "ascii_lower_char c \<noteq> CHR ''M'' \<and> ascii_lower_char c \<noteq> CHR ''U''"
proof (cases "(65::nat) \<le> of_char c \<and> (of_char c :: nat) \<le> 90")
  case True
  then have "(of_char (char_of ((of_char c :: nat) + 32)) :: nat) = of_char c + 32"
    by simp
  moreover have "(of_char (CHR ''M'') :: nat) = 77" "(of_char (CHR ''U'') :: nat) = 85" by simp_all
  ultimately show ?thesis using True
    by (auto simp: ascii_lower_char_def char_of_eq_iff take_bit_eq_mod)
next
  case False
  then show ?thesis by (auto simp: ascii_lower_char_def)
qed

lemma ascii_lower_not_reserved:
  "ascii_lower s \<noteq> ''<MASK>'' \<and> ascii_lower s \<noteq> ''<UNK>''"
proof -
  have "CHR ''M'' \<notin> set (ascii_lower s)" "CHR ''U'' \<notin> set (ascii_lower s)"
    using ascii_lower_char_not_upper by (auto simp: ascii_lower_def image_iff) metis+
  then show ?thesis by auto
qed


lemma example_lower_cat: "ascii_lower ''cat'' = ''cat''"
  by (simp add: ascii_lower_def ascii_lower_char_def char_of_eq_iff)

lemma example_lower_Cat: "ascii_lower ''Cat'' = ''cat''"
  by (simp add: ascii_lower_def ascii_lower_char_def char_of_eq_iff)

lemma example_lower_unknown: "ascii_lower ''unknown_token'' = ''unknown_token''"
  by (simp add: ascii_lower_def ascii_lower_char_def char_of_eq_iff)

lemma example_indices_ok: "indices_ok example_vocab example_embeddings"
  by (simp add: indices_ok_def index_ok_def example_vocab_def example_embeddings_def)

lemma example_ties_indices_ok: "indices_ok example_vocab_ties example_embeddings"
  by (simp add: indices_ok_def index_ok_def example_vocab_ties_def example_embeddings_def)

text \<open>
  Claim C7. One call of \<open>set_seed_everywhere\<close> leaves numpy's generator, torch's
  generator and the generators of all CUDA devices seeded with one and the same value,
  42, whatever the state before the call.
\<close>
theorem set_seed_everywhere_seeds_all:
  "np_random_seed (set_seed_everywhere s) = Some 42 \<and>
   torch_seed (set_seed_everywhere s) = Some 42 \<and>
   torch_cuda_seed_all (set_seed_everywhere s) = Some 42"
  by (simp add: set_seed_everywhere_def np_random_seed_call_def torch_manual_seed_def
      torch_cuda_manual_seed_all_def)

text \<open>
  What a call returns on a table whose indices the tensor accepts and whose dictionary
  has the lower-cased target: the tokens other than \<open><MASK>\<close>, \<open><UNK>\<close> and
  \<open>target_word\<close> as it was passed, each with the similarity of the row of the lower-cased
  target and the token's row.
\<close>

lemma get_cosine_similar_pairs:
  assumes "map_of word_to_idx (lower target_word) = Some ti"
    and "indices_ok word_to_idx embeddings"
  shows "\<exists>results.
     get_cosine_similar lower cos_sim target_word word_to_idx embeddings = Inr results \<and>
     set results =
       {(w, cos_sim (row_at embeddings ti) (row_at embeddings i)) | w i.
          (w, i) \<in> set word_to_idx \<and> w \<notin> {''<MASK>'', ''<UNK>'', target_word}} \<and>
     fst ` set results = fst ` set word_to_idx - {''<MASK>'', ''<UNK>'', target_word} \<and>
     length results =
       length (filter (\<lambda>(w, i). w \<notin> {''<MASK>'', ''<UNK>'', target_word}) word_to_idx)"
proof -
  let ?ds = "scored cos_sim (row_at embeddings ti) embeddings target_word word_to_idx"
  have sk: "skipped target_word = {''<MASK>'', ''<UNK>'', target_word}"
    by (auto simp: skipped_def)
  have "get_cosine_similar lower cos_sim target_word word_to_idx embeddings =
      Inr (sorted_reverse snd ?ds)"
    using assms by (rule get_cosine_similar_ok)
  moreover have "set (sorted_reverse snd ?ds) =
      {(w, cos_sim (row_at embeddings ti) (row_at embeddings i)) | w i.
          (w, i) \<in> set word_to_idx \<and> w \<notin> {''<MASK>'', ''<UNK>'', target_word}}"
    by (simp only: sorted_reverse_set set_scored sk)
  moreover have "fst ` set (sorted_reverse snd ?ds) =
      fst ` set word_to_idx - {''<MASK>'', ''<UNK>'', target_word}"
    by (simp only: sorted_reverse_set fst_set_scored sk)
  moreover have "length (sorted_reverse snd ?ds) =
      length (filter (\<lambda>(w, i). w \<notin> {''<MASK>'', ''<UNK>'', target_word}) word_to_idx)"
    by (simp only: sorted_reverse_length length_scored sk)
  ultimately show ?thesis by blast
qed

text \<open>
  Claim C5. A returned list is in descending order of the scores, and for every score
  the tokens that have it come in the order in which the dictionary iterates over them:
  the sort is stable, so the list is a function of the arguments and of that order.
\<close>
theorem get_cosine_similar_sorted_stable:
  assumes "get_cosine_similar lower cos_sim target_word word_to_idx embeddings = Inr results"
  shows "sorted_wrt (\<lambda>a b. snd b \<le> snd a) results \<and>
     (\<exists>ti. map_of word_to_idx (lower target_word) = Some ti \<and>
        (\<forall>k. map fst (filter (\<lambda>p. snd p = k) results) =
           map fst (filter (\<lambda>(w, i). w \<notin> {''<MASK>'', ''<UNK>'', target_word} \<and>
                      cos_sim (row_at embeddings ti) (row_at embeddings i) = k) word_to_idx)))"
proof -
  have sk: "skipped target_word = {''<MASK>'', ''<UNK>'', target_word}"
    by (auto simp: skipped_def)
  from get_cosine_similar_Inr [OF assms] obtain ti where
    ti: "map_of word_to_idx (lower target_word) = Some ti" and
    res: "results = sorted_reverse snd
       (scored cos_sim (row_at embeddings ti) embeddings target_word word_to_idx)"
    by blast
  have "sorted_wrt (\<lambda>a b. snd b \<le> snd a) results"
    unfolding res by (rule sorted_reverse_desc)
  moreover have "map fst (filter (\<lambda>p. snd p = k) results) =
      map fst (filter (\<lambda>(w, i). w \<notin> {''<MASK>'', ''<UNK>'', target_word} \<and>
                 cos_sim (row_at embeddings ti) (row_at embeddings i) = k) word_to_idx)" for k
    unfolding res by (simp only: sorted_reverse_stable filter_scored sk)
  ultimately show ?thesis using ti by blast
qed

theorem get_cosine_similar_sorted_stable_witness:
  "get_cosine_similar ascii_lower cosine_similarity ''Cat'' example_vocab_ties example_embeddings
     = Inr [(''dog'', 1), (''cat'', 1), (''kit'', 1), (''car'', 0)] \<and>
   sorted_wrt (\<lambda>a b. snd b \<le> snd a)
     [(''dog'', 1 :: real), (''cat'', 1), (''kit'', 1), (''car'', 0)] \<and>
   (\<exists>ti. map_of example_vocab_ties (ascii_lower ''Cat'') = Some ti \<and>
      (\<forall>k. map fst (filter (\<lambda>p. snd p = k)
                [(''dog'', 1 :: real), (''cat'', 1), (''kit'', 1), (''car'', 0)]) =
         map fst (filter (\<lambda>(w, i). w \<notin> {''<MASK>'', ''<UNK>'', ''Cat''} \<and>
                    cosine_similarity (row_at example_embeddings ti) (row_at example_embeddings i) = k)
                example_vocab_ties)))"
proof -
  have h: "get_cosine_similar ascii_lower cosine_similarity ''Cat'' example_vocab_ties
      example_embeddings = Inr [(''dog'', 1), (''cat'', 1), (''kit'', 1), (''car'', 0)]"
    by (simp add: get_cosine_similar_def example_vocab_ties_def example_embeddings_def
        example_lower_Cat tensor_getitem_def sorted_reverse_def cosine_similarity_def dot_def)
  show ?thesis
    using h get_cosine_similar_sorted_stable [OF h] by blast
qed

text \<open>
  Claim C6. When the lower-cased target is not a key of the dictionary, the result is the
  \<open>KeyError\<close> carrying the lower-cased target, not a list.
\<close>
theorem get_cosine_similar_KeyError:
  assumes "lower target_word \<notin> fst ` set word_to_idx"
  shows "get_cosine_similar lower cos_sim target_word word_to_idx embeddings =
     Inl (KeyError (lower target_word))"
proof -
  from assms have "map_of word_to_idx (lower target_word) = None"
    by (simp add: map_of_eq_None_iff)
  then show ?thesis by (simp add: get_cosine_similar_def)
qed

theorem get_cosine_similar_KeyError_witness:
  "ascii_lower ''unknown_token'' \<notin> fst ` set example_vocab \<and>
   get_cosine_similar ascii_lower cosine_similarity ''unknown_token'' example_vocab
     example_embeddings = Inl (KeyError ''unknown_token'')"
proof -
  have h: "ascii_lower ''unknown_token'' \<notin> fst ` set example_vocab"
    by (simp add: example_lower_unknown example_vocab_def)
  show ?thesis
    using h get_cosine_similar_KeyError [where lower = ascii_lower
        and target_word = "''unknown_token''" and cos_sim = cosine_similarity
        and embeddings = example_embeddings, OF h]
    by (simp add: example_lower_unknown)
qed

text \<open>
  Claim C10. When the target differs from its lower-cased form and that form is a key,
  the function returns a list that has the lower-cased token, paired with the similarity
  of the target's row with itself: the loop compares the tokens with the target as it
  was passed. A lower-cased string is never one of the two reserved tokens, which are
  upper-case; with \<open>lower\<close> a parameter this is a hypothesis (it is
  \<open>ascii_lower_not_reserved\<close> for ASCII lower-casing).
\<close>
theorem get_cosine_similar_keeps_lowered_target:
  assumes "target_word \<noteq> lower target_word"
    and "map_of word_to_idx (lower target_word) = Some ti"
    and "indices_ok word_to_idx embeddings"
    and "lower target_word \<noteq> ''<MASK>''" and "lower target_word \<noteq> ''<UNK>''"
  shows "\<exists>results.
     get_cosine_similar lower cos_sim target_word word_to_idx embeddings = Inr results \<and>
     (lower target_word, cos_sim (row_at embeddings ti) (row_at embeddings ti)) \<in> set results"
proof -
  let ?ds = "scored cos_sim (row_at embeddings ti) embeddings target_word word_to_idx"
  have run: "get_cosine_similar lower cos_sim target_word word_to_idx embeddings =
      Inr (sorted_reverse snd ?ds)"
    using assms(2,3) by (rule get_cosine_similar_ok)
  from assms(2) have "(lower target_word, ti) \<in> set word_to_idx" by (rule map_of_SomeD)
  moreover from assms(1,4,5) have "lower target_word \<notin> skipped target_word"
    by (auto simp: skipped_def)
  ultimately have "(lower target_word, cos_sim (row_at embeddings ti) (row_at embeddings ti))
      \<in> set ?ds"
    unfolding set_scored by blast
  then show ?thesis using run by (simp add: sorted_reverse_set)
qed

theorem get_cosine_similar_keeps_lowered_target_witness:
  "''Cat'' \<noteq> ascii_lower ''Cat'' \<and>
   map_of example_vocab (ascii_lower ''Cat'') = Some 0 \<and>
   indices_ok example_vocab example_embeddings \<and>
   ascii_lower ''Cat'' \<noteq> ''<MASK>'' \<and> ascii_lower ''Cat'' \<noteq> ''<UNK>'' \<and>
   (\<exists>results.
     get_cosine_similar ascii_lower cosine_similarity ''Cat'' example_vocab example_embeddings
       = Inr results \<and>
     (ascii_lower ''Cat'',
      cosine_similarity (row_at example_embeddings 0) (row_at example_embeddings 0))
       \<in> set results)"
proof -
  have h1: "''Cat'' \<noteq> ascii_lower ''Cat''" by (simp add: example_lower_Cat)
  have h2: "map_of example_vocab (ascii_lower ''Cat'') = Some 0"
    by (simp add: example_lower_Cat example_vocab_def)
  have h4: "ascii_lower ''Cat'' \<noteq> ''<MASK>''" and h5: "ascii_lower ''Cat'' \<noteq> ''<UNK>''"
    by (simp_all add: example_lower_Cat)
  show ?thesis
    using h1 h2 h4 h5 example_indices_ok
      get_cosine_similar_keeps_lowered_target [where lower = ascii_lower
        and target_word = "''Cat''" and cos_sim = cosine_similarity,
        OF h1 h2 example_indices_ok h4 h5]
    by simp
qed

text \<open>
  Claim C4, evaluated on the target \<open>Cat\<close>: the lookup lower-cases the target and reads
  the row of \<open>cat\<close>, the loop skips the tokens equal to \<open>Cat\<close>, so the list has the entry
  of the target itself, the row scored against itself, where the claim leaves it out.
\<close>

theorem get_cosine_similar_scores_target_itself:
  "get_cosine_similar ascii_lower cosine_similarity ''Cat'' example_vocab example_embeddings
     = Inr [(''cat'', 1), (''dog'', 1), (''car'', 0)]"
  by (simp add: get_cosine_similar_def example_vocab_def example_embeddings_def
      example_lower_Cat tensor_getitem_def sorted_reverse_def cosine_similarity_def dot_def)

section \<open>Properties of encoder.py\<close>

lemma spy_block_forward: "EncoderBlock_forward spy_block x m = Inr (block_call m x)"
  by (simp add: EncoderBlock_forward_def spy_block_def spy_add_norm_def block_call_def)

text \<open>
  Claim C8. The forward pass of a block is the first add-and-norm layer applied to the
  values and to the function that calls the attention module with its argument as query,
  key and value and with the given mask, followed by the second add-and-norm layer
  applied to that result and to the feed-forward module itself; an exception of the
  first layer ends the pass. This holds whatever the four modules are.
\<close>
theorem EncoderBlock_forward_order:
  "EncoderBlock_forward self values msk =
     (case add_norm_layer_1 self values (\<lambda>x. self_attention self x x x msk) of
        Inl e \<Rightarrow> Inl e
      | Inr values1 \<Rightarrow> add_norm_layer_2 self values1 (feed_forward self))"
  by (simp add: EncoderBlock_forward_def)

lemma run_layers_chain:
  "run_layers h ls v m = Inr w \<longleftrightarrow>
     (\<exists>vs. length vs = Suc (length ls) \<and> vs ! 0 = v \<and>
        (\<forall>i<length ls. EncoderBlock_forward (cells h (ls ! i)) (vs ! i) m = Inr (vs ! Suc i)) \<and>
        vs ! length ls = w)"
proof (induction ls arbitrary: v)
  case Nil
  show ?case
  proof
    assume "run_layers h [] v m = Inr w"
    then have "length [v] = Suc (length ([] :: addr list)) \<and> [v] ! 0 = v \<and> [v] ! 0 = w" by simp
    then show "\<exists>vs. length vs = Suc (length ([] :: addr list)) \<and> vs ! 0 = v \<and>
        (\<forall>i<length ([] :: addr list).
           EncoderBlock_forward (cells h ([] ! i)) (vs ! i) m = Inr (vs ! Suc i)) \<and>
        vs ! length ([] :: addr list) = w"
      by (intro exI [of _ "[v]"]) simp
  next
    assume "\<exists>vs. length vs = Suc (length ([] :: addr list)) \<and> vs ! 0 = v \<and>
        (\<forall>i<length ([] :: addr list).
           EncoderBlock_forward (cells h ([] ! i)) (vs ! i) m = Inr (vs ! Suc i)) \<and>
        vs ! length ([] :: addr list) = w"
    then show "run_layers h [] v m = Inr w" by auto
  qed
next
  case (Cons l ls)
  show ?case
  proof
    assume run: "run_layers h (l # ls) v m = Inr w"
    then obtain v1 where v1: "EncoderBlock_forward (cells h l) v m = Inr v1"
      and rest: "run_layers h ls v1 m = Inr w"
      by (auto split: sum.splits)
    from rest Cons.IH [of v1] obtain vs where vs: "length vs = Suc (length ls)" "vs ! 0 = v1"
      "\<forall>i<length ls. EncoderBlock_forward (cells h (ls ! i)) (vs ! i) m = Inr (vs ! Suc i)"
      "vs ! length ls = w"
      by blast
    have "\<forall>i<length (l # ls).
        EncoderBlock_forward (cells h ((l # ls) ! i)) ((v # vs) ! i) m = Inr ((v # vs) ! Suc i)"
    proof (intro allI impI)
      fix i assume "i < length (l # ls)"
      then show "EncoderBlock_forward (cells h ((l # ls) ! i)) ((v # vs) ! i) m
          = Inr ((v # vs) ! Suc i)"
        using v1 vs by (cases i) auto
    qed
    moreover have "length (v # vs) = Suc (length (l # ls))" using vs by simp
    moreover have "(v # vs) ! 0 = v" by simp
    moreover have "(v # vs) ! length (l # ls) = w" using vs by simp
    ultimately show "\<exists>vs. length vs = Suc (length (l # ls)) \<and> vs ! 0 = v \<and>
        (\<forall>i<length (l # ls).
           EncoderBlock_forward (cells h ((l # ls) ! i)) (vs ! i) m = Inr (vs ! Suc i)) \<and>
        vs ! length (l # ls) = w"
      by blast
  next
    assume "\<exists>vs. length vs = Suc (length (l # ls)) \<and> vs ! 0 = v \<and>
        (\<forall>i<length (l # ls).
           EncoderBlock_forward (cells h ((l # ls) ! i)) (vs ! i) m = Inr (vs ! Suc i)) \<and>
        vs ! length (l # ls) = w"
    then obtain vs where len: "length vs = Suc (length (l # ls))" and v0: "vs ! 0 = v"
      and step: "\<forall>i<length (l # ls).
           EncoderBlock_forward (cells h ((l # ls) ! i)) (vs ! i) m = Inr (vs ! Suc i)"
      and fin: "vs ! length (l # ls) = w"
      by blast
    from len obtain u us where vs: "vs = u # us" by (cases vs) auto
    from v0 vs have u: "u = v" by simp
    from step [rule_format, of 0] vs u
    have first: "EncoderBlock_forward (cells h l) v m = Inr (us ! 0)" by simp
    have "\<forall>i<length ls. EncoderBlock_forward (cells h (ls ! i)) (us ! i) m = Inr (us ! Suc i)"
    proof (intro allI impI)
      fix i assume "i < length ls"
      then have "Suc i < length (l # ls)" by simp
      from step [rule_format, OF this] vs
      show "EncoderBlock_forward (cells h (ls ! i)) (us ! i) m = Inr (us ! Suc i)" by simp
    qed
    moreover have "length us = Suc (length ls)" using len vs by simp
    moreover have "us ! length ls = w" using fin vs by simp
    ultimately have "run_layers h ls (us ! 0) m = Inr w"
      using Cons.IH [of "us ! 0"] by blast
    with first show "run_layers h (l # ls) v m = Inr w" by simp
  qed
qed


lemma deepcopy_eq:
  "deepcopy h a = (h1, c) \<Longrightarrow>
     c = next_addr h \<and> cells h1 = (cells h)(next_addr h := cells h a) \<and>
     next_addr h1 = Suc (next_addr h)"
  by (auto simp: deepcopy_def)

lemma CompositeEncoder_init_layers:
  "CompositeEncoder_init h layer num_layers = (h1, self) \<Longrightarrow>
     layers self = replicate (nat num_layers) (next_addr h) \<and>
     cells h1 = (cells h)(next_addr h := cells h layer) \<and>
     add_norm self =
       \<lparr>num_features = layer_size (cells h layer), momentum = None, affine = False\<rparr>"
  by (auto simp: CompositeEncoder_init_def deepcopy_def)

lemma CompositeEncoder_init_shares_one_copy:
  assumes "CompositeEncoder_init h layer num_layers = (h1, self)"
    and "i < length (layers self)" and "j < length (layers self)"
  shows "layers self ! i = layers self ! j \<and>
     cells (store_block h1 (layers self ! i) b) (layers self ! j) = b"
  using assms CompositeEncoder_init_layers [OF assms(1)]
  by (simp add: store_block_def)

lemma CompositeEncoder_init_leaves_prototype:
  assumes "CompositeEncoder_init h layer num_layers = (h1, self)"
    and "layer < next_addr h" and "i < length (layers self)"
  shows "cells (store_block h1 (layers self ! i) b) layer = cells h layer"
  using assms CompositeEncoder_init_layers [OF assms(1)]
  by (simp add: store_block_def)

text \<open>
  Claim C9. The stack returns \<open>out\<close> exactly when there is a chain of values, one more
  than there are blocks, that starts with the input, in which block \<open>i\<close> called with
  value \<open>i\<close> and the mask of the call returns value \<open>i + 1\<close>, and whose last value the
  normalisation turns into \<open>out\<close>: the blocks run in order, each on the output of the one
  before, all with the same mask.
\<close>
theorem CompositeEncoder_forward_chain:
  "CompositeEncoder_forward batch_norm h self values msk = Inr out \<longleftrightarrow>
     (\<exists>vs. length vs = Suc (length (layers self)) \<and> vs ! 0 = values \<and>
        (\<forall>i<length (layers self).
           EncoderBlock_forward (cells h (layers self ! i)) (vs ! i) msk = Inr (vs ! Suc i)) \<and>
        batch_norm (add_norm self) (vs ! length (layers self)) = Inr out)"
proof
  assume "CompositeEncoder_forward batch_norm h self values msk = Inr out"
  then obtain w where w: "run_layers h (layers self) values msk = Inr w"
    and out: "batch_norm (add_norm self) w = Inr out"
    by (auto simp: CompositeEncoder_forward_def split: sum.splits)
  from w run_layers_chain [of h "layers self" "values" msk w] out
  show "\<exists>vs. length vs = Suc (length (layers self)) \<and> vs ! 0 = values \<and>
        (\<forall>i<length (layers self).
           EncoderBlock_forward (cells h (layers self ! i)) (vs ! i) msk = Inr (vs ! Suc i)) \<and>
        batch_norm (add_norm self) (vs ! length (layers self)) = Inr out"
    by blast
next
  assume "\<exists>vs. length vs = Suc (length (layers self)) \<and> vs ! 0 = values \<and>
        (\<forall>i<length (layers self).
           EncoderBlock_forward (cells h (layers self ! i)) (vs ! i) msk = Inr (vs ! Suc i)) \<and>
        batch_norm (add_norm self) (vs ! length (layers self)) = Inr out"
  then obtain vs where vs: "length vs = Suc (length (layers self))" "vs ! 0 = values"
      "\<forall>i<length (layers self).
           EncoderBlock_forward (cells h (layers self ! i)) (vs ! i) msk = Inr (vs ! Suc i)"
    and out: "batch_norm (add_norm self) (vs ! length (layers self)) = Inr out"
    by blast
  from vs have "run_layers h (layers self) values msk = Inr (vs ! length (layers self))"
    using run_layers_chain [of h "layers self" "values" msk "vs ! length (layers self)"] by blast
  with out show "CompositeEncoder_forward batch_norm h self values msk = Inr out"
    by (simp add: CompositeEncoder_forward_def)
qed

lemma spy_encoder_layers: "layers spy_encoder = [1, 1, 1]"
  by (simp add: spy_encoder_def CompositeEncoder_init_def deepcopy_def spy_store_def
      numeral_3_eq_3)

lemma spy_encoder_add_norm:
  "add_norm spy_encoder = \<lparr>num_features = 8, momentum = None, affine = False\<rparr>"
  by (simp add: spy_encoder_def CompositeEncoder_init_def deepcopy_def spy_store_def
      spy_block_def)

lemma spy_heap_cells: "cells spy_heap a = spy_block"
  by (simp add: spy_heap_def CompositeEncoder_init_def deepcopy_def spy_store_def)

lemma spy_forward:
  "CompositeEncoder_forward spy_batch_norm spy_heap spy_encoder Values True =
     Inr (FinalNorm \<lparr>num_features = 8, momentum = None, affine = False\<rparr>
            (block_call True (block_call True (block_call True Values))))"
  by (simp add: CompositeEncoder_forward_def spy_encoder_layers spy_encoder_add_norm
      spy_heap_cells spy_block_forward spy_batch_norm_def)

theorem CompositeEncoder_forward_chain_witness:
  "CompositeEncoder_forward spy_batch_norm spy_heap spy_encoder Values True =
     Inr (FinalNorm \<lparr>num_features = 8, momentum = None, affine = False\<rparr>
            (block_call True (block_call True (block_call True Values)))) \<and>
   (\<exists>vs. length vs = Suc (length (layers spy_encoder)) \<and> vs ! 0 = Values \<and>
      (\<forall>i<length (layers spy_encoder).
         EncoderBlock_forward (cells spy_heap (layers spy_encoder ! i)) (vs ! i) True
           = Inr (vs ! Suc i)) \<and>
      spy_batch_norm (add_norm spy_encoder) (vs ! length (layers spy_encoder)) =
        Inr (FinalNorm \<lparr>num_features = 8, momentum = None, affine = False\<rparr>
            (block_call True (block_call True (block_call True Values)))))"
  using spy_forward
    CompositeEncoder_forward_chain [of spy_batch_norm spy_heap spy_encoder Values True
      "FinalNorm \<lparr>num_features = 8, momentum = None, affine = False\<rparr>
            (block_call True (block_call True (block_call True Values)))"]
  by blast

lemma EncoderBlock_forward_shape:
  assumes "block_keeps_shape sh msk b" and "shape values = sh"
  shows "\<exists>out. EncoderBlock_forward b values msk = Inr out \<and> shape out = sh"
proof -
  from assms(1) have att: "keeps_shape sh (\<lambda>x. self_attention b x x x msk)"
    by (simp add: block_keeps_shape_def attention_keeps_shape_def keeps_shape_def)
  from assms(1) have l1: "add_norm_keeps_shape sh (add_norm_layer_1 b)"
    and l2: "add_norm_keeps_shape sh (add_norm_layer_2 b)"
    and ff: "keeps_shape sh (feed_forward b)"
    by (simp_all add: block_keeps_shape_def)
  from l1 att assms(2) obtain v1 where
    v1: "add_norm_layer_1 b values (\<lambda>x. self_attention b x x x msk) = Inr v1" "shape v1 = sh"
    unfolding add_norm_keeps_shape_def by blast
  from l2 ff v1(2) obtain v2 where
    v2: "add_norm_layer_2 b v1 (feed_forward b) = Inr v2" "shape v2 = sh"
    unfolding add_norm_keeps_shape_def by blast
  from v1 v2 show ?thesis by (simp add: EncoderBlock_forward_def)
qed

lemma run_layers_shape:
  assumes "\<forall>a\<in>set ls. block_keeps_shape sh msk (cells h a)" and "shape v = sh"
  shows "\<exists>out. run_layers h ls v msk = Inr out \<and> shape out = sh"
  using assms
proof (induction ls arbitrary: v)
  case Nil
  then show ?case by simp
next
  case (Cons l ls)
  from Cons.prems have "block_keeps_shape sh msk (cells h l)" by simp
  from EncoderBlock_forward_shape [OF this Cons.prems(2)] obtain v1 where
    v1: "EncoderBlock_forward (cells h l) v msk = Inr v1" "shape v1 = sh" by blast
  from Cons.prems have "\<forall>a\<in>set ls. block_keeps_shape sh msk (cells h a)" by simp
  from Cons.IH [OF this v1(2)] v1(1) show ?case by simp
qed

lemma example_block_keeps_shape: "block_keeps_shape sh True (example_block c)"
  by (auto simp: block_keeps_shape_def attention_keeps_shape_def keeps_shape_def
      add_norm_keeps_shape_def example_block_def EncoderBlock_init_def example_attention_def
      example_ffn_def example_add_norm_def)

lemma example_encoder_layers: "layers example_encoder = [1, 1, 1]"
  by (simp add: example_encoder_def CompositeEncoder_init_def deepcopy_def example_store_def
      numeral_3_eq_3)

lemma example_heap_cells: "cells example_heap a = example_block 2"
  by (simp add: example_heap_def CompositeEncoder_init_def deepcopy_def example_store_def)

text \<open>
  Claim C1, evaluated on a stack of two layers: the two entries of the list are one and
  the same object, and assigning new feed-forward parameters to the first changes what
  the second returns on the same input.
\<close>
theorem CompositeEncoder_init_aliases_blocks:
  "(let (h1, self) = CompositeEncoder_init example_store 0 2;
        b0 = layers self ! 0;
        b1 = layers self ! 1;
        h2 = store_block h1 b0 ((cells h1 b0)\<lparr>feed_forward := example_ffn 5\<rparr>)
    in b0 = b1 \<and>
       EncoderBlock_forward (cells h1 b1) example_values True = Inr (Tensor [1, 1, 2] [6, 12]) \<and>
       EncoderBlock_forward (cells h2 b1) example_values True = Inr (Tensor [1, 1, 2] [12, 24]))"
  by (simp add: CompositeEncoder_init_def deepcopy_def example_store_def numeral_2_eq_2
      store_block_def EncoderBlock_forward_def example_block_def EncoderBlock_init_def
      example_attention_def example_ffn_def example_add_norm_def example_values_def)

lemma BatchNorm1d_forward_3d:
  assumes "shape w = [B, S, D]"
  shows "(int S = num_features bn \<and> \<not> (training \<and> B * D = 1) \<longrightarrow>
       BatchNorm1d_forward standardise training bn w =
         Inr (Tensor [B, S, D]
           (map (\<lambda>i. standardise bn training ((i div D) mod S)
                        (channel_entries w ((i div D) mod S)) (entries w ! i))
              [0..<length (entries w)]))) \<and>
     (int S \<noteq> num_features bn \<longrightarrow> (\<exists>e. BatchNorm1d_forward standardise training bn w = Inl e))"
  using assms by (simp add: BatchNorm1d_forward_def size_prods_def channel_of_def)

lemma example_block_forward:
  "EncoderBlock_forward (example_block 2) (Tensor sh xs) True =
     Inr (Tensor sh (map2 (+) (map2 (+) xs xs) (map (\<lambda>a. 2 * a) (map2 (+) xs xs))))"
  by (simp add: EncoderBlock_forward_def example_block_def EncoderBlock_init_def
      example_attention_def example_ffn_def example_add_norm_def)



lemma example_run_layers_values:
  "run_layers example_heap (layers example_encoder) example_values True =
     Inr (Tensor [1, 1, 2] [216, 432])"
  by (simp add: example_encoder_layers example_heap_cells example_block_forward
      example_values_def)

lemma example_add_norm_features:
  "add_norm example_encoder = \<lparr>num_features = 2, momentum = None, affine = False\<rparr>"
  by (simp add: example_encoder_def CompositeEncoder_init_def deepcopy_def example_store_def
      example_block_def EncoderBlock_init_def)



lemma stack_forward_3d:
  assumes "run_layers h (layers self) values msk = Inr w" and "shape w = [B, S, D]"
  shows "(int S = num_features (add_norm self) \<and> 0 < B \<and> 0 < D \<and> \<not> (training \<and> B * D = 1) \<longrightarrow>
       CompositeEncoder_forward (BatchNorm1d_forward standardise training) h self values msk =
         Inr (Tensor [B, S, D]
           (map (\<lambda>i. standardise (add_norm self) training ((i div D) mod S)
                        (channel_entries w ((i div D) mod S)) (entries w ! i))
              [0..<length (entries w)]))) \<and>
     (int S \<noteq> num_features (add_norm self) \<longrightarrow>
       (\<exists>e. CompositeEncoder_forward (BatchNorm1d_forward standardise training) h self values msk
          = Inl e))"
  using assms(1) BatchNorm1d_forward_3d [OF assms(2), of "add_norm self" training standardise]
  by (simp add: CompositeEncoder_forward_def)

text \<open>
  Claim C2, as amended. For values of shape \<open>[B, S, D]\<close>: a block whose attention module,
  feed-forward module and add-and-norm layers keep that shape returns a tensor of that
  shape. A stack of such blocks returns a tensor of that shape when dimension 1 has as
  many entries as the normalisation layer has features, \<open>S = layer.size\<close> (for values that
  are not empty and, in training mode, have more than one value per channel), and raises
  when \<open>S\<close> differs from \<open>layer.size\<close>.
\<close>
theorem forward_keeps_shape_dim1:
  assumes "shape values = [B, S, D]"
  shows "(block_keeps_shape [B, S, D] msk b \<longrightarrow>
       (\<exists>out. EncoderBlock_forward b values msk = Inr out \<and> shape out = [B, S, D])) \<and>
     ((\<forall>a\<in>set (layers self). block_keeps_shape [B, S, D] msk (cells h a)) \<longrightarrow>
       (int S = num_features (add_norm self) \<and> 0 < B \<and> 0 < D \<and> \<not> (training \<and> B * D = 1) \<longrightarrow>
          (\<exists>out. CompositeEncoder_forward (BatchNorm1d_forward standardise training) h self
                   values msk = Inr out \<and> shape out = [B, S, D])) \<and>
       (int S \<noteq> num_features (add_norm self) \<longrightarrow>
          (\<exists>e. CompositeEncoder_forward (BatchNorm1d_forward standardise training) h self
                 values msk = Inl e)))"
proof (intro conjI impI)
  assume "block_keeps_shape [B, S, D] msk b"
  from EncoderBlock_forward_shape [OF this assms]
  show "\<exists>out. EncoderBlock_forward b values msk = Inr out \<and> shape out = [B, S, D]" .
next
  assume blocks: "\<forall>a\<in>set (layers self). block_keeps_shape [B, S, D] msk (cells h a)"
    and ok: "int S = num_features (add_norm self) \<and> 0 < B \<and> 0 < D \<and> \<not> (training \<and> B * D = 1)"
  from run_layers_shape [OF blocks assms] obtain w where
    w: "run_layers h (layers self) values msk = Inr w" "shape w = [B, S, D]" by blast
  from stack_forward_3d [OF w, of training standardise] ok
  show "\<exists>out. CompositeEncoder_forward (BatchNorm1d_forward standardise training) h self
      values msk = Inr out \<and> shape out = [B, S, D]"
    by auto
next
  assume blocks: "\<forall>a\<in>set (layers self). block_keeps_shape [B, S, D] msk (cells h a)"
    and ne: "int S \<noteq> num_features (add_norm self)"
  from run_layers_shape [OF blocks assms] obtain w where
    w: "run_layers h (layers self) values msk = Inr w" "shape w = [B, S, D]" by blast
  from stack_forward_3d [OF w, of training standardise] ne
  show "\<exists>e. CompositeEncoder_forward (BatchNorm1d_forward standardise training) h self
      values msk = Inl e"
    by blast
qed

theorem forward_keeps_shape_dim1_witness:
  "shape example_values_dim1 = [1, 2, 2] \<and>
   block_keeps_shape [1, 2, 2] True (example_block 2) \<and>
   (\<exists>out. EncoderBlock_forward (example_block 2) example_values_dim1 True = Inr out \<and>
      shape out = [1, 2, 2]) \<and>
   layers example_encoder = [1, 1, 1] \<and>
   block_keeps_shape [1, 2, 2] True (cells example_heap 1) \<and>
   int 2 = num_features (add_norm example_encoder) \<and>
   (\<exists>out. CompositeEncoder_forward (BatchNorm1d_forward example_standardise True) example_heap
       example_encoder example_values_dim1 True = Inr out \<and> shape out = [1, 2, 2])"
proof -
  have h: "shape example_values_dim1 = [1, 2, 2]" by (simp add: example_values_dim1_def)
  show ?thesis
    using h example_block_keeps_shape [of "[1, 2, 2]" 2] example_heap_cells
      example_encoder_layers example_add_norm_features
      forward_keeps_shape_dim1 [OF h, of True "example_block 2" example_encoder example_heap
        True example_standardise]
    by simp
qed

text \<open>
  The claim as it was stated fails on values of shape \<open>[1, 1, 2]\<close> and a stack of blocks
  of size 2 that keep that shape: the normalisation layer raises in both modes.
\<close>
theorem forward_keeps_shape_counterexample:
  "shape example_values = [1, 1, 2] \<and>
   layer_size (example_block 2) = 2 \<and>
   layers example_encoder = [1, 1, 1] \<and>
   cells example_heap 1 = example_block 2 \<and>
   block_keeps_shape [1, 1, 2] True (example_block 2) \<and>
   CompositeEncoder_forward (BatchNorm1d_forward example_standardise True) example_heap
     example_encoder example_values True =
     Inl (RuntimeError ''running_mean should contain as many elements as dimension 1'') \<and>
   CompositeEncoder_forward (BatchNorm1d_forward example_standardise False) example_heap
     example_encoder example_values True =
     Inl (RuntimeError ''running_mean should contain as many elements as dimension 1'') \<and>
   \<not> (\<exists>out. CompositeEncoder_forward (BatchNorm1d_forward example_standardise False)
          example_heap example_encoder example_values True = Inr out \<and> shape out = [1, 1, 2])"
proof -
  have sh: "shape example_values = [1, 1, 2]" by (simp add: example_values_def)
  have sz: "layer_size (example_block 2) = 2"
    by (simp add: example_block_def EncoderBlock_init_def)
  have raises: "CompositeEncoder_forward (BatchNorm1d_forward example_standardise training)
      example_heap example_encoder example_values True =
      Inl (RuntimeError ''running_mean should contain as many elements as dimension 1'')"
    for training
    by (simp add: CompositeEncoder_forward_def example_run_layers_values
        example_add_norm_features BatchNorm1d_forward_def size_prods_def)
  show ?thesis
    using sh sz example_encoder_layers example_heap_cells [of 1]
      example_block_keeps_shape [of "[1, 1, 2]" 2] raises [of True] raises [of False]
    by simp
qed




end
